theory Spec2Isabelle
  imports
    Main
    "HOL-Library.Multiset"
    "HOL-Library.Char_ord"
    "HOL-Library.List_Lexorder"
begin

section \<open>Python values and exceptions\<close>

text \<open>
  The module \<^verbatim>\<open>card_deck/deck.py\<close> is dynamically typed: a card's \<^verbatim>\<open>value\<close> and
  \<^verbatim>\<open>suit\<close> hold whatever object the caller passed.  The objects that occur in the
  module are integers (the ranks 1 to 14 of \<^verbatim>\<open>Deck.__init__\<close>) and strings (the
  suit names), so a Python value is one of the two.  Equality between an integer and a
  string is \<^verbatim>\<open>False\<close>, which is what the datatype's equality gives.
\<close>

datatype pyval = PyInt int | PyStr string

text \<open>
  The exception classes of the module, and the built-in ones its statements can raise.
\<close>

datatype error =
    CardValueError
  | CardSuitError
  | DeckOutOfCardsError
  | IndexError
  | KeyError
  | TypeError
  | OverflowError

text \<open>
  Python 3 ordering: integers by value, strings lexicographically by code point; an
  ordering comparison between an integer and a string raises \<^verbatim>\<open>TypeError\<close>.
\<close>

fun py_gt :: "pyval \<Rightarrow> pyval \<Rightarrow> error + bool" where
  "py_gt (PyInt a) (PyInt b) = Inr (a > b)"
| "py_gt (PyStr a) (PyStr b) = Inr (a > b)"
| "py_gt (PyInt a) (PyStr b) = Inl TypeError"
| "py_gt (PyStr a) (PyInt b) = Inl TypeError"

fun py_lt :: "pyval \<Rightarrow> pyval \<Rightarrow> error + bool" where
  "py_lt (PyInt a) (PyInt b) = Inr (a < b)"
| "py_lt (PyStr a) (PyStr b) = Inr (a < b)"
| "py_lt (PyInt a) (PyStr b) = Inl TypeError"
| "py_lt (PyStr a) (PyInt b) = Inl TypeError"

text \<open>Two values of the same kind: both integers or both strings.\<close>

fun same_kind :: "pyval \<Rightarrow> pyval \<Rightarrow> bool" where
  "same_kind (PyInt a) (PyInt b) = True"
| "same_kind (PyStr a) (PyStr b) = True"
| "same_kind (PyInt a) (PyStr b) = False"
| "same_kind (PyStr a) (PyInt b) = False"

text \<open>
  The interpreter converts the argument of \<^verbatim>\<open>list.pop\<close> to a C \<^verbatim>\<open>Py_ssize_t\<close> before
  it looks at the list; on a 64-bit build that type holds the integers from \<open>- 2 ^ 63\<close>
  to \<open>2 ^ 63 - 1\<close>.
\<close>

definition PY_SSIZE_T_MAX :: int where
  "PY_SSIZE_T_MAX = 2 ^ 63 - 1"

definition PY_SSIZE_T_MIN :: int where
  "PY_SSIZE_T_MIN = - (2 ^ 63)"

text \<open>
  \<^verbatim>\<open>list.pop(i)\<close>: an index that does not fit a \<^verbatim>\<open>Py_ssize_t\<close> raises
  \<^verbatim>\<open>OverflowError\<close>; a negative index counts from the end; an index outside
  \<^verbatim>\<open>-len <= i < len\<close> raises \<^verbatim>\<open>IndexError\<close>; otherwise the element is removed and
  returned.
\<close>

definition list_pop :: "'a list \<Rightarrow> int \<Rightarrow> error + ('a \<times> 'a list)" where
  "list_pop xs i =
     (if i < PY_SSIZE_T_MIN \<or> PY_SSIZE_T_MAX < i then Inl OverflowError
      else
        (let n = int (length xs);
             j = (if i < 0 then i + n else i)
         in if j < 0 \<or> n \<le> j then Inl IndexError
            else Inr (xs ! nat j, take (nat j) xs @ drop (Suc (nat j)) xs)))"

section \<open>Module constants\<close>

definition suits :: "pyval list" where
  "suits = [PyStr ''heart'', PyStr ''spade'', PyStr ''club'', PyStr ''diamond'']"

definition suit_value_dict :: "pyval \<rightharpoonup> int" where
  "suit_value_dict =
     map_of [(PyStr ''heart'', 3), (PyStr ''diamond'', 2), (PyStr ''spade'', 1), (PyStr ''club'', 0)]"

section \<open>Card\<close>

text \<open>The attribute \<^verbatim>\<open>self.value\<close> is the field \<open>val\<close>.\<close>

record Card =
  val :: pyval
  suit :: pyval

text \<open>
  \<^verbatim>\<open>Card.__init__(self, value, suit)\<close>: the first test looks the value up in the list
  of suit names.
\<close>

definition Card_init :: "pyval \<Rightarrow> pyval \<Rightarrow> error + Card" where
  "Card_init v s =
     (if v \<notin> set suits then Inl CardValueError
      else if s \<notin> set suits then Inl CardSuitError
      else Inr \<lparr>val = v, suit = s\<rparr>)"

text \<open>
  \<^verbatim>\<open>Card(14)\<close>: the parameter \<^verbatim>\<open>suit\<close> has no default, so a call with one argument
  raises \<^verbatim>\<open>TypeError\<close> before the body runs.
\<close>

definition Card_init_one_arg :: "pyval \<Rightarrow> error + Card" where
  "Card_init_one_arg v = Inl TypeError"

text \<open>
  \<^verbatim>\<open>Card.suitCompare\<close>: both dictionary lookups happen in the first test and raise
  \<^verbatim>\<open>KeyError\<close> on a missing key.  A chain of \<^verbatim>\<open>if/elif\<close> with no \<^verbatim>\<open>else\<close> returns
  \<^verbatim>\<open>None\<close> when no test holds: the result is an \<open>int option\<close>.  The parameter
  \<^verbatim>\<open>card\<close> of the two comparison methods is written \<open>other\<close>.
\<close>

definition Card_suitCompare :: "Card \<Rightarrow> Card \<Rightarrow> error + int option" where
  "Card_suitCompare self other =
     (case suit_value_dict (suit self) of
        None \<Rightarrow> Inl KeyError
      | Some x \<Rightarrow>
          (case suit_value_dict (suit other) of
             None \<Rightarrow> Inl KeyError
           | Some y \<Rightarrow>
               Inr (if x = y then Some 0
                    else if x > y then Some 1
                    else if x < y then Some (- 1)
                    else None)))"

definition Card_compare :: "Card \<Rightarrow> Card \<Rightarrow> error + int option" where
  "Card_compare self other =
     (if val self = val other then Card_suitCompare self other
      else
        (case py_gt (val self) (val other) of
           Inl e \<Rightarrow> Inl e
         | Inr True \<Rightarrow> Inr (Some 1)
         | Inr False \<Rightarrow>
             (case py_lt (val self) (val other) of
                Inl e \<Rightarrow> Inl e
              | Inr True \<Rightarrow> Inr (Some (- 1))
              | Inr False \<Rightarrow> Inr None)))"

section \<open>Deck\<close>

record Deck =
  deck :: "Card list"
  discard :: "Card list"

definition card_values :: "pyval list" where
  "card_values = map PyInt [1, 2, 3, 4, 5, 6, 7, 8, 9, 10, 11, 12, 13]"

text \<open>
  The three nested loops of \<^verbatim>\<open>Deck.__init__\<close>, innermost first.  Each takes the draw
  pile built so far; an exception raised by \<^verbatim>\<open>Card(...)\<close> leaves the constructor.
\<close>

fun values_loop :: "Card list \<Rightarrow> pyval \<Rightarrow> pyval list \<Rightarrow> error + Card list" where
  "values_loop d s [] = Inr d"
| "values_loop d s (card_value # rest) =
     (case Card_init card_value s of
        Inl e \<Rightarrow> Inl e
      | Inr c \<Rightarrow> values_loop (d @ [c]) s rest)"

fun suits_loop :: "Card list \<Rightarrow> pyval list \<Rightarrow> error + Card list" where
  "suits_loop d [] = Inr d"
| "suits_loop d (s # rest) =
     (case values_loop d s card_values of
        Inl e \<Rightarrow> Inl e
      | Inr d' \<Rightarrow> suits_loop d' rest)"

text \<open>
  The joker statement is \<^verbatim>\<open>self.deck.append(Card(14), Card(14))\<close>: its first argument
  is evaluated first and raises; were it to return, \<^verbatim>\<open>append\<close> with two arguments
  raises \<^verbatim>\<open>TypeError\<close> as well.
\<close>

fun decks_loop :: "Card list \<Rightarrow> bool \<Rightarrow> nat \<Rightarrow> error + Card list" where
  "decks_loop d using_jokers 0 = Inr d"
| "decks_loop d using_jokers (Suc n) =
     (case suits_loop d suits of
        Inl e \<Rightarrow> Inl e
      | Inr d' \<Rightarrow>
          if using_jokers then
            (case Card_init_one_arg (PyInt 14) of
               Inl e \<Rightarrow> Inl e
             | Inr c \<Rightarrow> Inl TypeError)
          else decks_loop d' using_jokers n)"

text \<open>\<^verbatim>\<open>range(number_of_decks)\<close> is empty for a count below one.\<close>

definition Deck_init :: "int \<Rightarrow> bool \<Rightarrow> error + Deck" where
  "Deck_init number_of_decks using_jokers =
     (case decks_loop [] using_jokers (nat number_of_decks) of
        Inl e \<Rightarrow> Inl e
      | Inr d \<Rightarrow> Inr \<lparr>deck = d, discard = []\<rparr>)"

text \<open>
  \<^verbatim>\<open>random.shuffle\<close> belongs to the Python runtime, not to the module.  The standard
  library shuffles in place, for \<^verbatim>\<open>i\<close> from \<^verbatim>\<open>len - 1\<close> down to 1 swapping \<^verbatim>\<open>x[i]\<close>
  with \<^verbatim>\<open>x[j]\<close> for a random \<^verbatim>\<open>j\<close> below \<^verbatim>\<open>i + 1\<close>.  The random source is a parameter:
  the list of numbers drawn, each reduced to the requested range (0 once the list is
  used up), so that every outcome of the library's loop is the result for some list.
\<close>

fun randbelow :: "nat list \<Rightarrow> nat \<Rightarrow> nat" where
  "randbelow [] n = 0"
| "randbelow (r # rs) n = r mod n"

fun random_shuffle_loop :: "nat \<Rightarrow> nat list \<Rightarrow> 'a list \<Rightarrow> 'a list" where
  "random_shuffle_loop 0 rs xs = xs"
| "random_shuffle_loop (Suc k) rs xs =
     (let i = Suc k;
          j = randbelow rs (i + 1)
      in random_shuffle_loop k (tl rs) (xs[i := xs ! j, j := xs ! i]))"

definition random_shuffle :: "nat list \<Rightarrow> 'a list \<Rightarrow> 'a list" where
  "random_shuffle rs xs = random_shuffle_loop (length xs - 1) rs xs"

definition Deck_shuffle :: "nat list \<Rightarrow> Deck \<Rightarrow> Deck" where
  "Deck_shuffle rs self =
     (let d1 = self\<lparr>deck := deck self @ discard self\<rparr>;
          d2 = d1\<lparr>discard := []\<rparr>
      in d2\<lparr>deck := random_shuffle rs (deck d2)\<rparr>)"

text \<open>
  \<^verbatim>\<open>Deck.draw\<close> returns the outcome together with the deck afterwards, so that what a
  failed call leaves behind is part of the result.
\<close>

definition Deck_draw :: "Deck \<Rightarrow> (error + Card) \<times> Deck" where
  "Deck_draw self =
     (case list_pop (deck self) 0 of
        Inl IndexError \<Rightarrow> (Inl DeckOutOfCardsError, self)
      | Inl e \<Rightarrow> (Inl e, self)
      | Inr (card_drawn, rest) \<Rightarrow> (Inr card_drawn, self\<lparr>deck := rest\<rparr>))"

definition Deck_addToDiscard :: "Card \<Rightarrow> Deck \<Rightarrow> Deck" where
  "Deck_addToDiscard c self = self\<lparr>discard := discard self @ [c]\<rparr>"

section \<open>Hand\<close>

record Hand =
  hand :: "Card list"

definition Hand_init :: Hand where
  "Hand_init = \<lparr>hand = []\<rparr>"

definition Hand_draw :: "Hand \<Rightarrow> Deck \<Rightarrow> (error + unit) \<times> Hand \<times> Deck" where
  "Hand_draw self d =
     (case Deck_draw d of
        (Inl DeckOutOfCardsError, d') \<Rightarrow> (Inl DeckOutOfCardsError, self, d')
      | (Inl e, d') \<Rightarrow> (Inl e, self, d')
      | (Inr c, d') \<Rightarrow> (Inr (), self\<lparr>hand := hand self @ [c]\<rparr>, d'))"

text \<open>
  \<^verbatim>\<open>Hand.discard\<close>: the argument \<^verbatim>\<open>self.hand.pop(card_index)\<close> is evaluated before
  \<^verbatim>\<open>addToDiscard\<close> is called; an \<^verbatim>\<open>IndexError\<close> is raised again as \<^verbatim>\<open>IndexError\<close>.
  Any other exception of \<^verbatim>\<open>pop\<close>, such as \<^verbatim>\<open>OverflowError\<close>, is not caught and
  leaves the method as it is.
\<close>

definition Hand_discard :: "Hand \<Rightarrow> Deck \<Rightarrow> int \<Rightarrow> (error + unit) \<times> Hand \<times> Deck" where
  "Hand_discard self d card_index =
     (case list_pop (hand self) card_index of
        Inl IndexError \<Rightarrow> (Inl IndexError, self, d)
      | Inl e \<Rightarrow> (Inl e, self, d)
      | Inr (c, rest) \<Rightarrow> (Inr (), self\<lparr>hand := rest\<rparr>, Deck_addToDiscard c d))"

section \<open>Calling sequences\<close>

text \<open>
  The expression \<^verbatim>\<open>Card(v1, s1).compare(Card(v2, s2))\<close>: the receiver is built first,
  then the argument, then the method runs.
\<close>

definition compare_new :: "pyval \<Rightarrow> pyval \<Rightarrow> pyval \<Rightarrow> pyval \<Rightarrow> error + int option" where
  "compare_new v1 s1 v2 s2 =
     (case Card_init v1 s1 of
        Inl e \<Rightarrow> Inl e
      | Inr a \<Rightarrow>
          (case Card_init v2 s2 of
             Inl e \<Rightarrow> Inl e
           | Inr b \<Rightarrow> Card_compare a b))"

text \<open>
  A caller's view of one deck and its hands: the calls a game makes are
  \<^verbatim>\<open>hands[k].draw(deck)\<close>, \<^verbatim>\<open>hands[k].discard(deck, i)\<close> and \<^verbatim>\<open>deck.shuffle()\<close>.  A call
  that raises leaves the objects as the method left them, and the caller goes on; a call
  on a hand that does not exist changes nothing.
\<close>

datatype op = OpDraw nat | OpDiscard nat int | OpShuffle "nat list"

fun step :: "Deck \<times> Hand list \<Rightarrow> op \<Rightarrow> Deck \<times> Hand list" where
  "step (d, hs) (OpDraw k) =
     (if k < length hs
      then (case Hand_draw (hs ! k) d of (r, h', d') \<Rightarrow> (d', hs[k := h']))
      else (d, hs))"
| "step (d, hs) (OpDiscard k i) =
     (if k < length hs
      then (case Hand_discard (hs ! k) d i of (r, h', d') \<Rightarrow> (d', hs[k := h']))
      else (d, hs))"
| "step (d, hs) (OpShuffle rs) = (Deck_shuffle rs d, hs)"

definition run :: "Deck \<times> Hand list \<Rightarrow> op list \<Rightarrow> Deck \<times> Hand list" where
  "run t ops = foldl step t ops"

text \<open>All cards of a deck and its hands, with multiplicity.\<close>

fun all_cards :: "Deck \<times> Hand list \<Rightarrow> Card multiset" where
  "all_cards (d, hs) = mset (deck d) + mset (discard d) + (\<Sum>h\<leftarrow>hs. mset (hand h))"

text \<open>
  The scenario \<^verbatim>\<open>Deck(1, False)\<close>, one new hand, five draws, then a discard of index 2;
  its result is the sizes of the draw pile, the hand and the discard pile.
\<close>

definition scenario_draw5_discard2 :: "error + (nat \<times> nat \<times> nat)" where
  "scenario_draw5_discard2 =
     (case Deck_init 1 False of
        Inl e \<Rightarrow> Inl e
      | Inr d \<Rightarrow>
          (case run (d, [Hand_init])
                  [OpDraw 0, OpDraw 0, OpDraw 0, OpDraw 0, OpDraw 0, OpDiscard 0 2] of
             (d', hs) \<Rightarrow>
               Inr (length (deck d'), length (hand (hs ! 0)), length (discard d'))))"

section \<open>Card construction\<close>

lemma Card_init_PyInt: "Card_init (PyInt r) s = Inl CardValueError"
  by (simp add: Card_init_def suits_def)

lemma Card_init_Inr_iff:
  "Card_init v s = Inr c \<longleftrightarrow> v \<in> set suits \<and> s \<in> set suits \<and> c = \<lparr>val = v, suit = s\<rparr>"
  by (auto simp: Card_init_def)

text \<open>
  C1.  The specification has \<^verbatim>\<open>Card(r, s)\<close> succeed for a rank from 1 to 13 and one of
  the four suits, and raise the rank error only for a rank outside the valid set.  The
  constructor tests the rank against the list of suit names, so the valid card
  \<^verbatim>\<open>Card(5, "heart")\<close> is rejected with \<^verbatim>\<open>CardValueError\<close>.
\<close>

theorem Card_init_five_of_hearts_rejected:
  "Card_init (PyInt 5) (PyStr ''heart'') = Inl CardValueError"
  by (simp add: Card_init_def suits_def)

section \<open>Deck construction\<close>

lemma decks_loop_Suc: "decks_loop d using_jokers (Suc n) = Inl CardValueError"
  by (simp add: suits_def card_values_def Card_init_PyInt)

lemma Deck_init_positive:
  assumes "1 \<le> number_of_decks"
  shows "Deck_init number_of_decks using_jokers = Inl CardValueError"
proof -
  from assms obtain k where "nat number_of_decks = Suc k"
    by (cases "nat number_of_decks") auto
  then show ?thesis
    by (simp add: Deck_init_def decks_loop_Suc del: decks_loop.simps)
qed

text \<open>
  C2.  The specification has \<^verbatim>\<open>Deck(1, False)\<close> hold 52 cards and \<^verbatim>\<open>Deck(2, False)\<close>
  hold 104.  Both constructions stop at their first card, \<^verbatim>\<open>Card(1, 'heart')\<close>, with
  \<^verbatim>\<open>CardValueError\<close>, and no deck is built.
\<close>

theorem Deck_init_one_and_two_fail:
  "Deck_init 1 False = Inl CardValueError \<and> Deck_init 2 False = Inl CardValueError"
  by (simp add: Deck_init_positive)

section \<open>Shuffling\<close>

lemma randbelow_less: "0 < n \<Longrightarrow> randbelow rs n < n"
  by (cases rs) simp_all

lemma mset_random_shuffle_loop:
  "k < length xs \<Longrightarrow> mset (random_shuffle_loop k rs xs) = mset xs"
proof (induction k arbitrary: rs xs)
  case 0
  then show ?case by simp
next
  case (Suc k)
  have "randbelow rs (Suc (Suc k)) < Suc (Suc k)"
    by (rule randbelow_less) simp
  also have "Suc (Suc k) \<le> length xs"
    using Suc.prems by simp
  finally have j: "randbelow rs (Suc (Suc k)) < length xs" .
  show ?case
    using Suc j by (simp add: Let_def mset_swap)
qed

lemma mset_random_shuffle: "mset (random_shuffle rs xs) = mset xs"
  by (cases xs) (simp_all add: random_shuffle_def mset_random_shuffle_loop)

text \<open>
  C6.  Whatever numbers the random source delivers, after \<^verbatim>\<open>shuffle()\<close> the draw pile
  holds the cards of the former draw pile and the former discard pile, each as often as
  before, and the discard pile is empty.
\<close>

theorem Deck_shuffle_permutation:
  "mset (deck (Deck_shuffle rs d)) = mset (deck d) + mset (discard d)
   \<and> discard (Deck_shuffle rs d) = []"
  by (simp add: Deck_shuffle_def Let_def mset_random_shuffle)

theorem Deck_shuffle_permutation_witness:
  "mset (deck (Deck_shuffle [1, 0]
       \<lparr>deck = [\<lparr>val = PyStr ''heart'', suit = PyStr ''club''\<rparr>,
                \<lparr>val = PyStr ''spade'', suit = PyStr ''club''\<rparr>],
        discard = [\<lparr>val = PyStr ''club'', suit = PyStr ''heart''\<rparr>]\<rparr>))
   = {#\<lparr>val = PyStr ''heart'', suit = PyStr ''club''\<rparr>,
       \<lparr>val = PyStr ''spade'', suit = PyStr ''club''\<rparr>,
       \<lparr>val = PyStr ''club'', suit = PyStr ''heart''\<rparr>#}"
  using Deck_shuffle_permutation [of "[1, 0]"
       "\<lparr>deck = [\<lparr>val = PyStr ''heart'', suit = PyStr ''club''\<rparr>,
                \<lparr>val = PyStr ''spade'', suit = PyStr ''club''\<rparr>],
        discard = [\<lparr>val = PyStr ''club'', suit = PyStr ''heart''\<rparr>]\<rparr>"]
  by simp

section \<open>Drawing\<close>

lemma PY_SSIZE_T_MIN_negative: "PY_SSIZE_T_MIN < 0"
  by (simp add: PY_SSIZE_T_MIN_def)

lemma PY_SSIZE_T_MAX_positive: "0 < PY_SSIZE_T_MAX"
  by (simp add: PY_SSIZE_T_MAX_def)

lemma list_pop_0_Nil: "list_pop [] 0 = Inl IndexError"
  using PY_SSIZE_T_MIN_negative PY_SSIZE_T_MAX_positive by (simp add: list_pop_def)

lemma list_pop_0_Cons: "list_pop (x # xs) 0 = Inr (x, xs)"
  using PY_SSIZE_T_MIN_negative PY_SSIZE_T_MAX_positive by (simp add: list_pop_def)

text \<open>
  C7.  \<^verbatim>\<open>Deck.draw\<close> on a draw pile \<open>c # cs\<close> returns the front card \<open>c\<close> and leaves
  \<open>cs\<close>; on an empty draw pile it raises \<^verbatim>\<open>DeckOutOfCardsError\<close> and leaves both piles
  as they were.  It raises exactly when the draw pile is empty.
\<close>

theorem Deck_draw_front:
  "Deck_draw \<lparr>deck = c # cs, discard = ds\<rparr> = (Inr c, \<lparr>deck = cs, discard = ds\<rparr>)
   \<and> Deck_draw \<lparr>deck = [], discard = ds\<rparr>
       = (Inl DeckOutOfCardsError, \<lparr>deck = [], discard = ds\<rparr>)
   \<and> (fst (Deck_draw d) = Inl DeckOutOfCardsError) = (deck d = [])
   \<and> (\<exists>e. fst (Deck_draw d) = Inl e) = (deck d = [])"
  by (cases "deck d") (simp_all add: Deck_draw_def list_pop_0_Nil list_pop_0_Cons)

theorem Deck_draw_front_witness:
  "Deck_draw \<lparr>deck = [\<lparr>val = PyStr ''heart'', suit = PyStr ''club''\<rparr>,
                      \<lparr>val = PyStr ''spade'', suit = PyStr ''club''\<rparr>], discard = []\<rparr>
     = (Inr \<lparr>val = PyStr ''heart'', suit = PyStr ''club''\<rparr>,
        \<lparr>deck = [\<lparr>val = PyStr ''spade'', suit = PyStr ''club''\<rparr>], discard = []\<rparr>)"
  using Deck_draw_front [of "\<lparr>val = PyStr ''heart'', suit = PyStr ''club''\<rparr>"
      "[\<lparr>val = PyStr ''spade'', suit = PyStr ''club''\<rparr>]" "[]"]
  by simp

text \<open>
  C8.  \<^verbatim>\<open>Hand.draw\<close> on a draw pile \<open>c # cs\<close> puts \<open>c\<close> at the end of the hand; on an
  empty draw pile it raises \<^verbatim>\<open>DeckOutOfCardsError\<close> and leaves hand and deck as they
  were.
\<close>

theorem Hand_draw_appends:
  "Hand_draw \<lparr>hand = hs\<rparr> \<lparr>deck = c # cs, discard = ds\<rparr>
     = (Inr (), \<lparr>hand = hs @ [c]\<rparr>, \<lparr>deck = cs, discard = ds\<rparr>)
   \<and> Hand_draw \<lparr>hand = hs\<rparr> \<lparr>deck = [], discard = ds\<rparr>
       = (Inl DeckOutOfCardsError, \<lparr>hand = hs\<rparr>, \<lparr>deck = [], discard = ds\<rparr>)"
  by (simp add: Hand_draw_def Deck_draw_def list_pop_0_Nil list_pop_0_Cons)

theorem Hand_draw_appends_witness:
  "Hand_draw \<lparr>hand = [\<lparr>val = PyStr ''club'', suit = PyStr ''heart''\<rparr>]\<rparr>
             \<lparr>deck = [\<lparr>val = PyStr ''heart'', suit = PyStr ''club''\<rparr>], discard = []\<rparr>
     = (Inr (),
        \<lparr>hand = [\<lparr>val = PyStr ''club'', suit = PyStr ''heart''\<rparr>,
                 \<lparr>val = PyStr ''heart'', suit = PyStr ''club''\<rparr>]\<rparr>,
        \<lparr>deck = [], discard = []\<rparr>)"
  using Hand_draw_appends [of "[\<lparr>val = PyStr ''club'', suit = PyStr ''heart''\<rparr>]"
      "\<lparr>val = PyStr ''heart'', suit = PyStr ''club''\<rparr>" "[]" "[]"]
  by simp

section \<open>Comparison\<close>

lemma suit_value_dict_values:
  "suit_value_dict (PyStr ''heart'') = Some 3"
  "suit_value_dict (PyStr ''diamond'') = Some 2"
  "suit_value_dict (PyStr ''spade'') = Some 1"
  "suit_value_dict (PyStr ''club'') = Some 0"
  by (simp_all add: suit_value_dict_def)

lemma suit_value_dict_cases:
  "suit_value_dict s = Some x \<Longrightarrow>
     (s = PyStr ''heart'' \<and> x = 3) \<or> (s = PyStr ''diamond'' \<and> x = 2) \<or>
     (s = PyStr ''spade'' \<and> x = 1) \<or> (s = PyStr ''club'' \<and> x = 0)"
  by (auto simp: suit_value_dict_def split: if_splits)

lemma suit_value_dict_inj:
  "suit_value_dict s = Some x \<Longrightarrow> suit_value_dict t = Some x \<Longrightarrow> s = t"
  by (auto dest!: suit_value_dict_cases)

lemma dom_suit_value_dict: "dom suit_value_dict = set suits"
  by (auto simp: suit_value_dict_def suits_def split: if_splits)

lemma Card_suitCompare_keys:
  "suit_value_dict (suit a) = Some x \<Longrightarrow> suit_value_dict (suit b) = Some y \<Longrightarrow>
   Card_suitCompare a b = Inr (Some (if x = y then 0 else if x > y then 1 else - 1))"
  by (simp add: Card_suitCompare_def)

lemma same_kind_sym: "same_kind u v \<Longrightarrow> same_kind v u"
  by (cases u; cases v) auto

lemma same_kind_trans: "same_kind u v \<Longrightarrow> same_kind v w \<Longrightarrow> same_kind u w"
  by (cases u; cases v; cases w) auto

lemma py_order_same_kind:
  "same_kind u v \<Longrightarrow> u \<noteq> v \<Longrightarrow>
     (py_gt u v = Inr True \<and> py_gt v u = Inr False
        \<and> py_lt u v = Inr False \<and> py_lt v u = Inr True) \<or>
     (py_gt u v = Inr False \<and> py_gt v u = Inr True
        \<and> py_lt u v = Inr True \<and> py_lt v u = Inr False)"
  by (cases u; cases v) auto

lemma py_order_mixed:
  "\<not> same_kind u v \<Longrightarrow> u \<noteq> v \<and> py_gt u v = Inl TypeError"
  by (cases u; cases v) auto

lemma py_gt_trans:
  "py_gt u v = Inr True \<Longrightarrow> py_gt v w = Inr True \<Longrightarrow> py_gt u w = Inr True \<and> u \<noteq> w"
  by (cases u; cases v; cases w) auto

lemma py_lt_trans:
  "py_lt u v = Inr True \<Longrightarrow> py_lt v w = Inr True \<Longrightarrow>
   py_lt u w = Inr True \<and> py_gt u w = Inr False \<and> u \<noteq> w"
  by (cases u; cases v; cases w) auto

text \<open>
  On two cards whose suits are keys of the table and whose values are of one kind,
  \<^verbatim>\<open>compare\<close> is the lexicographic comparison of (value, suit rank).
\<close>

lemma Card_compare_closed:
  assumes "suit_value_dict (suit a) = Some x" "suit_value_dict (suit b) = Some y"
    and "same_kind (val a) (val b)"
  shows "Card_compare a b =
     Inr (Some (if val a = val b then (if x = y then 0 else if x > y then 1 else - 1)
                else if py_gt (val a) (val b) = Inr True then 1 else - 1))"
proof (cases "val a = val b")
  case True
  then show ?thesis
    using assms by (simp add: Card_compare_def Card_suitCompare_keys)
next
  case False
  from py_order_same_kind [OF assms(3) False] show ?thesis
    using False by (auto simp: Card_compare_def)
qed

lemma suit_key_heart: "PyStr ''heart'' \<in> dom suit_value_dict"
  by (simp add: suit_value_dict_def)

lemma suit_key_spade: "PyStr ''spade'' \<in> dom suit_value_dict"
  by (simp add: suit_value_dict_def)

lemma suit_key_club: "PyStr ''club'' \<in> dom suit_value_dict"
  by (simp add: suit_value_dict_def)

lemma suit_key_diamond: "PyStr ''diamond'' \<in> dom suit_value_dict"
  by (simp add: suit_value_dict_def)

text \<open>
  C4.  On cards whose suits are keys of the ranking table and whose values are of one
  kind (all integers, as ranks are, or all strings, as the values \<^verbatim>\<open>Card.__init__\<close>
  lets through are), \<^verbatim>\<open>compare\<close> returns one of -1, 0, 1 with
  \<open>compare b a = - compare a b\<close>, returns 0 exactly when value and suit are both equal,
  and is transitive in both strict directions.
\<close>

theorem Card_compare_strict_total_order:
  assumes "suit a \<in> dom suit_value_dict" "suit b \<in> dom suit_value_dict"
    "suit c \<in> dom suit_value_dict"
    and ab: "same_kind (val a) (val b)" and bc: "same_kind (val b) (val c)"
  shows "(\<exists>x. x \<in> {- 1, 0, 1} \<and> Card_compare a b = Inr (Some x)
              \<and> Card_compare b a = Inr (Some (- x)))
     \<and> ((Card_compare a b = Inr (Some 0)) = (val a = val b \<and> suit a = suit b))
     \<and> (Card_compare a b = Inr (Some 1) \<and> Card_compare b c = Inr (Some 1)
          \<longrightarrow> Card_compare a c = Inr (Some 1))
     \<and> (Card_compare a b = Inr (Some (- 1)) \<and> Card_compare b c = Inr (Some (- 1))
          \<longrightarrow> Card_compare a c = Inr (Some (- 1)))"
proof -
  from assms obtain x y z where x: "suit_value_dict (suit a) = Some x"
    and y: "suit_value_dict (suit b) = Some y"
    and z: "suit_value_dict (suit c) = Some z"
    by auto
  have ba: "same_kind (val b) (val a)"
    using ab by (rule same_kind_sym)
  have ac: "same_kind (val a) (val c)"
    using ab bc by (rule same_kind_trans)
  note AB = Card_compare_closed [OF x y ab]
  note BA = Card_compare_closed [OF y x ba]
  note BC = Card_compare_closed [OF y z bc]
  note AC = Card_compare_closed [OF x z ac]
  have antisym: "\<exists>x. x \<in> {- 1, 0, 1} \<and> Card_compare a b = Inr (Some x)
      \<and> Card_compare b a = Inr (Some (- x))"
  proof (cases "val a = val b")
    case True
    then show ?thesis unfolding AB BA by auto
  next
    case False
    from py_order_same_kind [OF ab False] False show ?thesis
      unfolding AB BA by auto
  qed
  have zero: "(Card_compare a b = Inr (Some 0)) = (val a = val b \<and> suit a = suit b)"
    unfolding AB using suit_value_dict_inj [OF x, of "suit b"] x y by auto
  have up: "Card_compare a b = Inr (Some 1) \<and> Card_compare b c = Inr (Some 1)
      \<longrightarrow> Card_compare a c = Inr (Some 1)"
    unfolding AB BC AC using py_gt_trans [of "val a" "val b" "val c"]
    by (auto split: if_splits)
  have down: "Card_compare a b = Inr (Some (- 1)) \<and> Card_compare b c = Inr (Some (- 1))
      \<longrightarrow> Card_compare a c = Inr (Some (- 1))"
  proof (cases "val a = val b")
    case True
    then show ?thesis unfolding AB BC AC by (auto split: if_splits)
  next
    case ne1: False
    show ?thesis
    proof (cases "val b = val c")
      case True
      then show ?thesis using ne1 unfolding AB BC AC by (auto split: if_splits)
    next
      case ne2: False
      from py_order_same_kind [OF ab ne1] py_order_same_kind [OF bc ne2]
        py_lt_trans [of "val a" "val b" "val c"]
      show ?thesis using ne1 ne2 unfolding AB BC AC by (auto split: if_splits)
    qed
  qed
  from antisym zero up down show ?thesis by blast
qed

theorem Card_compare_strict_total_order_witness:
  "suit \<lparr>val = PyStr ''spade'', suit = PyStr ''club''\<rparr> \<in> dom suit_value_dict
   \<and> suit \<lparr>val = PyStr ''heart'', suit = PyStr ''heart''\<rparr> \<in> dom suit_value_dict
   \<and> suit \<lparr>val = PyStr ''heart'', suit = PyStr ''spade''\<rparr> \<in> dom suit_value_dict
   \<and> same_kind (val \<lparr>val = PyStr ''spade'', suit = PyStr ''club''\<rparr>)
               (val \<lparr>val = PyStr ''heart'', suit = PyStr ''heart''\<rparr>)
   \<and> same_kind (val \<lparr>val = PyStr ''heart'', suit = PyStr ''heart''\<rparr>)
               (val \<lparr>val = PyStr ''heart'', suit = PyStr ''spade''\<rparr>)
   \<and> Card_compare \<lparr>val = PyStr ''spade'', suit = PyStr ''club''\<rparr>
        \<lparr>val = PyStr ''heart'', suit = PyStr ''heart''\<rparr> = Inr (Some 1)
   \<and> Card_compare \<lparr>val = PyStr ''heart'', suit = PyStr ''heart''\<rparr>
        \<lparr>val = PyStr ''heart'', suit = PyStr ''spade''\<rparr> = Inr (Some 1)
   \<and> Card_compare \<lparr>val = PyStr ''spade'', suit = PyStr ''club''\<rparr>
        \<lparr>val = PyStr ''heart'', suit = PyStr ''spade''\<rparr> = Inr (Some 1)
   \<and> Card_compare \<lparr>val = PyStr ''heart'', suit = PyStr ''heart''\<rparr>
        \<lparr>val = PyStr ''spade'', suit = PyStr ''club''\<rparr> = Inr (Some (- 1))"
proof -
  let ?a = "\<lparr>val = PyStr ''spade'', suit = PyStr ''club''\<rparr>"
  let ?b = "\<lparr>val = PyStr ''heart'', suit = PyStr ''heart''\<rparr>"
  let ?c = "\<lparr>val = PyStr ''heart'', suit = PyStr ''spade''\<rparr>"
  have gt: "''heart'' < ''spade''"
    by (simp add: less_char_def)
  have ab: "Card_compare ?a ?b = Inr (Some 1)" and bc: "Card_compare ?b ?c = Inr (Some 1)"
    using gt by (simp_all add: Card_compare_def Card_suitCompare_def suit_value_dict_def)
  have h: "suit ?a \<in> dom suit_value_dict" "suit ?b \<in> dom suit_value_dict"
    "suit ?c \<in> dom suit_value_dict"
    "same_kind (val ?a) (val ?b)" "same_kind (val ?b) (val ?c)"
    by (simp_all add: suit_key_heart suit_key_spade suit_key_club)
  from Card_compare_strict_total_order [OF h] ab bc h show ?thesis by auto
qed

text \<open>
  C5.  The specification's two examples are \<^verbatim>\<open>Card(5,"heart").compare(Card(5,"diamond")) == 1\<close>
  and \<^verbatim>\<open>Card(5,"club").compare(Card(5,"spade")) == -1\<close>.  Both expressions raise
  \<^verbatim>\<open>CardValueError\<close> while building their first card, so neither comparison is reached.
  On card objects that hold those values and suits, \<^verbatim>\<open>compare\<close> itself returns 1 and -1:
  the tie-break by the table heart 3, diamond 2, spade 1, club 0 is as specified.
\<close>

theorem compare_new_examples_rejected:
  "compare_new (PyInt 5) (PyStr ''heart'') (PyInt 5) (PyStr ''diamond'') = Inl CardValueError
   \<and> compare_new (PyInt 5) (PyStr ''club'') (PyInt 5) (PyStr ''spade'') = Inl CardValueError
   \<and> Card_compare \<lparr>val = PyInt 5, suit = PyStr ''heart''\<rparr>
        \<lparr>val = PyInt 5, suit = PyStr ''diamond''\<rparr> = Inr (Some 1)
   \<and> Card_compare \<lparr>val = PyInt 5, suit = PyStr ''club''\<rparr>
        \<lparr>val = PyInt 5, suit = PyStr ''spade''\<rparr> = Inr (Some (- 1))"
  by (simp add: compare_new_def Card_init_PyInt Card_compare_def Card_suitCompare_def
      suit_value_dict_def)

text \<open>
  C10.  For two cards whose suits are keys of the ranking table, \<^verbatim>\<open>suitCompare\<close>
  returns -1, 0 or 1, and \<^verbatim>\<open>compare\<close> never runs past its last \<^verbatim>\<open>elif\<close> (it never
  returns \<^verbatim>\<open>None\<close>); when the two values are of one kind, all integers or all strings,
  \<^verbatim>\<open>compare\<close> returns -1, 0 or 1.
\<close>

theorem Card_compare_exhaustive:
  assumes "suit a \<in> dom suit_value_dict" "suit b \<in> dom suit_value_dict"
  shows "Card_suitCompare a b \<in> {Inr (Some (- 1)), Inr (Some 0), Inr (Some 1)}
     \<and> Card_compare a b \<noteq> Inr None
     \<and> (same_kind (val a) (val b) \<longrightarrow>
          Card_compare a b \<in> {Inr (Some (- 1)), Inr (Some 0), Inr (Some 1)})"
proof -
  from assms obtain x y where x: "suit_value_dict (suit a) = Some x"
    and y: "suit_value_dict (suit b) = Some y"
    by auto
  have suit_result: "Card_suitCompare a b \<in> {Inr (Some (- 1)), Inr (Some 0), Inr (Some 1)}"
    by (simp add: Card_suitCompare_keys [OF x y])
  have result: "same_kind (val a) (val b) \<longrightarrow>
      Card_compare a b \<in> {Inr (Some (- 1)), Inr (Some 0), Inr (Some 1)}"
    by (simp add: Card_compare_closed [OF x y])
  have returns: "Card_compare a b \<noteq> Inr None"
  proof (cases "same_kind (val a) (val b)")
    case True
    with result show ?thesis by auto
  next
    case False
    from py_order_mixed [OF this] show ?thesis
      by (simp add: Card_compare_def)
  qed
  from suit_result returns result show ?thesis by blast
qed

theorem Card_compare_exhaustive_witness:
  "suit \<lparr>val = PyStr ''club'', suit = PyStr ''heart''\<rparr> \<in> dom suit_value_dict
   \<and> suit \<lparr>val = PyStr ''club'', suit = PyStr ''diamond''\<rparr> \<in> dom suit_value_dict
   \<and> same_kind (val \<lparr>val = PyStr ''club'', suit = PyStr ''heart''\<rparr>)
               (val \<lparr>val = PyStr ''club'', suit = PyStr ''diamond''\<rparr>)
   \<and> Card_compare \<lparr>val = PyStr ''club'', suit = PyStr ''heart''\<rparr>
        \<lparr>val = PyStr ''club'', suit = PyStr ''diamond''\<rparr>
       \<in> {Inr (Some (- 1)), Inr (Some 0), Inr (Some 1)}"
  using Card_compare_exhaustive [of "\<lparr>val = PyStr ''club'', suit = PyStr ''heart''\<rparr>"
       "\<lparr>val = PyStr ''club'', suit = PyStr ''diamond''\<rparr>"]
  by (simp add: suit_key_heart suit_key_diamond)

section \<open>Discarding\<close>

lemma list_pop_overflow_iff:
  "(list_pop xs i = Inl OverflowError) = (i < PY_SSIZE_T_MIN \<or> PY_SSIZE_T_MAX < i)"
  by (auto simp: list_pop_def Let_def)

lemma list_pop_fails_iff:
  "(list_pop xs i = Inl IndexError)
     = (PY_SSIZE_T_MIN \<le> i \<and> i \<le> PY_SSIZE_T_MAX
        \<and> (i < - int (length xs) \<or> int (length xs) \<le> i))"
  by (auto simp: list_pop_def Let_def)

lemma list_pop_error: "list_pop xs i = Inl e \<Longrightarrow> e = IndexError \<or> e = OverflowError"
  by (auto simp: list_pop_def Let_def split: if_splits)

lemma list_pop_nonneg:
  "0 \<le> i \<Longrightarrow> i < int (length xs) \<Longrightarrow> i \<le> PY_SSIZE_T_MAX \<Longrightarrow>
   list_pop xs i = Inr (xs ! nat i, take (nat i) xs @ drop (Suc (nat i)) xs)"
  using PY_SSIZE_T_MIN_negative by (simp add: list_pop_def Let_def)

lemma list_pop_neg:
  "- int (length xs) \<le> i \<Longrightarrow> i < 0 \<Longrightarrow> PY_SSIZE_T_MIN \<le> i \<Longrightarrow>
   list_pop xs i = Inr (xs ! nat (i + int (length xs)),
       take (nat (i + int (length xs))) xs @ drop (Suc (nat (i + int (length xs)))) xs)"
  using PY_SSIZE_T_MAX_positive by (simp add: list_pop_def Let_def)

text \<open>
  C3, as the specification has it, fails: \<^verbatim>\<open>Hand.discard\<close> hands the index to
  \<^verbatim>\<open>list.pop\<close>, which takes a negative index as counted from the end.  On a hand of one
  card the index -1 is not in \<open>0 \<le> index < 1\<close>, yet the call succeeds and moves the
  card to the discard pile.
\<close>

theorem Hand_discard_negative_index_counterexample:
  "\<not> (0 \<le> (- 1 :: int)
       \<and> (- 1 :: int)
           < int (length (hand \<lparr>hand = [\<lparr>val = PyStr ''heart'', suit = PyStr ''spade''\<rparr>]\<rparr>)))
   \<and> Hand_discard \<lparr>hand = [\<lparr>val = PyStr ''heart'', suit = PyStr ''spade''\<rparr>]\<rparr>
        \<lparr>deck = [], discard = []\<rparr> (- 1)
     = (Inr (), \<lparr>hand = []\<rparr>,
        \<lparr>deck = [], discard = [\<lparr>val = PyStr ''heart'', suit = PyStr ''spade''\<rparr>]\<rparr>)"
  by (simp add: Hand_discard_def list_pop_def PY_SSIZE_T_MIN_def PY_SSIZE_T_MAX_def
      Deck_addToDiscard_def)

text \<open>
  C3, amended.  With \<open>n\<close> the size of the hand, for an index that fits a
  \<^verbatim>\<open>Py_ssize_t\<close>, \<^verbatim>\<open>Hand.discard(deck, index)\<close> raises \<^verbatim>\<open>IndexError\<close> exactly when
  \<open>index < - n\<close> or \<open>n \<le> index\<close>; for an index that does not fit, and only then, it
  raises \<^verbatim>\<open>OverflowError\<close>.  It raises nothing else, and after either failure hand and
  deck are as before the call.  For \<open>0 \<le> index < n\<close> the card at position \<open>index\<close>, and
  for \<open>- n \<le> index < 0\<close> the card at position \<open>n + index\<close>, is removed from the hand and
  put at the end of the deck's discard pile; the draw pile is untouched.
\<close>

theorem Hand_discard_python_index:
  "(fst (Hand_discard h d i) = Inl OverflowError)
      = (i < PY_SSIZE_T_MIN \<or> PY_SSIZE_T_MAX < i)
   \<and> (fst (Hand_discard h d i) = Inl IndexError)
      = (PY_SSIZE_T_MIN \<le> i \<and> i \<le> PY_SSIZE_T_MAX
         \<and> (i < - int (length (hand h)) \<or> int (length (hand h)) \<le> i))
   \<and> (\<forall>e. fst (Hand_discard h d i) = Inl e \<longrightarrow>
         (e = IndexError \<or> e = OverflowError) \<and> Hand_discard h d i = (Inl e, h, d))
   \<and> (0 \<le> i \<and> i < int (length (hand h)) \<and> i \<le> PY_SSIZE_T_MAX \<longrightarrow>
        Hand_discard h d i =
          (Inr (), h\<lparr>hand := take (nat i) (hand h) @ drop (Suc (nat i)) (hand h)\<rparr>,
           d\<lparr>discard := discard d @ [hand h ! nat i]\<rparr>))
   \<and> (- int (length (hand h)) \<le> i \<and> i < 0 \<and> PY_SSIZE_T_MIN \<le> i \<longrightarrow>
        Hand_discard h d i =
          (Inr (), h\<lparr>hand := take (nat (i + int (length (hand h)))) (hand h)
                              @ drop (Suc (nat (i + int (length (hand h))))) (hand h)\<rparr>,
           d\<lparr>discard := discard d @ [hand h ! nat (i + int (length (hand h)))]\<rparr>))"
proof -
  have result: "fst (Hand_discard h d i)
      = (case list_pop (hand h) i of Inl e \<Rightarrow> Inl e | Inr cr \<Rightarrow> Inr ())"
    by (auto simp: Hand_discard_def split: sum.splits error.splits prod.splits)
  have overflows: "(fst (Hand_discard h d i) = Inl OverflowError)
      = (i < PY_SSIZE_T_MIN \<or> PY_SSIZE_T_MAX < i)"
    unfolding result list_pop_overflow_iff [of "hand h" i, symmetric]
    by (simp split: sum.splits)
  have fails: "(fst (Hand_discard h d i) = Inl IndexError)
      = (PY_SSIZE_T_MIN \<le> i \<and> i \<le> PY_SSIZE_T_MAX
         \<and> (i < - int (length (hand h)) \<or> int (length (hand h)) \<le> i))"
    unfolding result list_pop_fails_iff [of "hand h" i, symmetric]
    by (simp split: sum.splits)
  have unchanged: "\<forall>e. fst (Hand_discard h d i) = Inl e \<longrightarrow>
      (e = IndexError \<or> e = OverflowError) \<and> Hand_discard h d i = (Inl e, h, d)"
  proof (cases "list_pop (hand h) i")
    case (Inl e')
    from list_pop_error [OF Inl] Inl show ?thesis
      by (auto simp: Hand_discard_def)
  next
    case (Inr cr)
    then show ?thesis
      by (cases cr) (simp add: Hand_discard_def)
  qed
  have from_start: "0 \<le> i \<and> i < int (length (hand h)) \<and> i \<le> PY_SSIZE_T_MAX \<longrightarrow>
        Hand_discard h d i =
          (Inr (), h\<lparr>hand := take (nat i) (hand h) @ drop (Suc (nat i)) (hand h)\<rparr>,
           d\<lparr>discard := discard d @ [hand h ! nat i]\<rparr>)"
    by (simp add: Hand_discard_def list_pop_nonneg Deck_addToDiscard_def)
  have from_end: "- int (length (hand h)) \<le> i \<and> i < 0 \<and> PY_SSIZE_T_MIN \<le> i \<longrightarrow>
        Hand_discard h d i =
          (Inr (), h\<lparr>hand := take (nat (i + int (length (hand h)))) (hand h)
                              @ drop (Suc (nat (i + int (length (hand h))))) (hand h)\<rparr>,
           d\<lparr>discard := discard d @ [hand h ! nat (i + int (length (hand h)))]\<rparr>)"
    by (simp add: Hand_discard_def list_pop_neg Deck_addToDiscard_def)
  from overflows fails unchanged from_start from_end show ?thesis by blast
qed

theorem Hand_discard_python_index_witness:
  "Hand_discard \<lparr>hand = [\<lparr>val = PyStr ''heart'', suit = PyStr ''spade''\<rparr>,
                         \<lparr>val = PyStr ''club'', suit = PyStr ''spade''\<rparr>]\<rparr>
        \<lparr>deck = [], discard = []\<rparr> (- 2)
     = (Inr (), \<lparr>hand = [\<lparr>val = PyStr ''club'', suit = PyStr ''spade''\<rparr>]\<rparr>,
        \<lparr>deck = [], discard = [\<lparr>val = PyStr ''heart'', suit = PyStr ''spade''\<rparr>]\<rparr>)
   \<and> Hand_discard \<lparr>hand = [\<lparr>val = PyStr ''heart'', suit = PyStr ''spade''\<rparr>,
                         \<lparr>val = PyStr ''club'', suit = PyStr ''spade''\<rparr>]\<rparr>
        \<lparr>deck = [], discard = []\<rparr> 1
     = (Inr (), \<lparr>hand = [\<lparr>val = PyStr ''heart'', suit = PyStr ''spade''\<rparr>]\<rparr>,
        \<lparr>deck = [], discard = [\<lparr>val = PyStr ''club'', suit = PyStr ''spade''\<rparr>]\<rparr>)
   \<and> Hand_discard \<lparr>hand = [\<lparr>val = PyStr ''heart'', suit = PyStr ''spade''\<rparr>,
                         \<lparr>val = PyStr ''club'', suit = PyStr ''spade''\<rparr>]\<rparr>
        \<lparr>deck = [], discard = []\<rparr> 2
     = (Inl IndexError, \<lparr>hand = [\<lparr>val = PyStr ''heart'', suit = PyStr ''spade''\<rparr>,
                         \<lparr>val = PyStr ''club'', suit = PyStr ''spade''\<rparr>]\<rparr>,
        \<lparr>deck = [], discard = []\<rparr>)
   \<and> Hand_discard \<lparr>hand = [\<lparr>val = PyStr ''heart'', suit = PyStr ''spade''\<rparr>,
                         \<lparr>val = PyStr ''club'', suit = PyStr ''spade''\<rparr>]\<rparr>
        \<lparr>deck = [], discard = []\<rparr> 9223372036854775808
     = (Inl OverflowError, \<lparr>hand = [\<lparr>val = PyStr ''heart'', suit = PyStr ''spade''\<rparr>,
                         \<lparr>val = PyStr ''club'', suit = PyStr ''spade''\<rparr>]\<rparr>,
        \<lparr>deck = [], discard = []\<rparr>)"
  using Hand_discard_python_index
      [of "\<lparr>hand = [\<lparr>val = PyStr ''heart'', suit = PyStr ''spade''\<rparr>,
                     \<lparr>val = PyStr ''club'', suit = PyStr ''spade''\<rparr>]\<rparr>"
        "\<lparr>deck = [], discard = []\<rparr>" "- 2"]
    Hand_discard_python_index
      [of "\<lparr>hand = [\<lparr>val = PyStr ''heart'', suit = PyStr ''spade''\<rparr>,
                     \<lparr>val = PyStr ''club'', suit = PyStr ''spade''\<rparr>]\<rparr>"
        "\<lparr>deck = [], discard = []\<rparr>" "1"]
    Hand_discard_python_index
      [of "\<lparr>hand = [\<lparr>val = PyStr ''heart'', suit = PyStr ''spade''\<rparr>,
                     \<lparr>val = PyStr ''club'', suit = PyStr ''spade''\<rparr>]\<rparr>"
        "\<lparr>deck = [], discard = []\<rparr>" "2"]
    Hand_discard_python_index
      [of "\<lparr>hand = [\<lparr>val = PyStr ''heart'', suit = PyStr ''spade''\<rparr>,
                     \<lparr>val = PyStr ''club'', suit = PyStr ''spade''\<rparr>]\<rparr>"
        "\<lparr>deck = [], discard = []\<rparr>" "9223372036854775808"]
  by (simp add: prod_eq_iff PY_SSIZE_T_MIN_def PY_SSIZE_T_MAX_def)

section \<open>Conservation of cards\<close>

lemma list_pop_mset:
  assumes "list_pop xs i = Inr (c, rest)"
  shows "mset xs = add_mset c (mset rest)"
proof -
  define p where "p = nat (if i < 0 then i + int (length xs) else i)"
  from assms have p: "p < length xs" and c: "c = xs ! p"
    and r: "rest = take p xs @ drop (Suc p) xs"
    by (auto simp: list_pop_def Let_def p_def split: if_splits)
  have "xs = take p xs @ xs ! p # drop (Suc p) xs"
    using p by (rule id_take_nth_drop)
  then have "mset xs = mset (take p xs @ xs ! p # drop (Suc p) xs)"
    by simp
  then show ?thesis
    unfolding c r by simp
qed

lemma Hand_draw_cards:
  "Hand_draw h d = (r, h', d') \<Longrightarrow>
   mset (deck d') + mset (discard d') + mset (hand h')
     = mset (deck d) + mset (discard d) + mset (hand h)"
  by (cases "deck d") (auto simp: Hand_draw_def Deck_draw_def list_pop_0_Nil list_pop_0_Cons)

lemma Hand_discard_cards:
  assumes "Hand_discard h d i = (r, h', d')"
  shows "mset (deck d') + mset (discard d') + mset (hand h')
     = mset (deck d) + mset (discard d) + mset (hand h)"
proof (cases "list_pop (hand h) i")
  case (Inl e)
  then show ?thesis
    using assms list_pop_error [OF Inl] by (auto simp: Hand_discard_def)
next
  case (Inr cr)
  obtain c rest where cr: "cr = (c, rest)"
    by (cases cr)
  from assms Inr cr have "h' = h\<lparr>hand := rest\<rparr>" "d' = Deck_addToDiscard c d"
    by (auto simp: Hand_discard_def)
  moreover have "mset (hand h) = add_mset c (mset rest)"
    using Inr cr list_pop_mset by fastforce
  ultimately show ?thesis
    by (simp add: Deck_addToDiscard_def)
qed

lemma sum_list_update_hand:
  "k < length hs \<Longrightarrow>
   (\<Sum>h\<leftarrow>hs[k := h']. mset (hand h)) + mset (hand (hs ! k))
     = (\<Sum>h\<leftarrow>hs. mset (hand h)) + mset (hand h')"
proof (induction hs arbitrary: k)
  case Nil
  then show ?case by simp
next
  case (Cons a hs)
  show ?case
  proof (cases k)
    case 0
    then show ?thesis by simp
  next
    case (Suc j)
    then have "j < length hs"
      using Cons.prems by simp
    from Cons.IH [OF this] show ?thesis
      using Suc by (simp add: add.assoc)
  qed
qed

text \<open>
  Every call keeps the cards: the multiset of cards over draw pile, discard pile and all
  hands is the same after a draw, a discard (failed or not) and a shuffle.
\<close>

lemma step_cards: "all_cards (step t x) = all_cards t"
proof -
  obtain d hs where t: "t = (d, hs)"
    by (cases t)
  show ?thesis
  proof (cases x)
    case (OpDraw k)
    show ?thesis
    proof (cases "k < length hs")
      case False
      then show ?thesis using t OpDraw by simp
    next
      case True
      obtain r h' d' where hd: "Hand_draw (hs ! k) d = (r, h', d')"
        by (cases "Hand_draw (hs ! k) d") auto
      have "all_cards (step t x) + mset (hand (hs ! k)) = all_cards t + mset (hand (hs ! k))"
        using True t OpDraw hd Hand_draw_cards [OF hd] sum_list_update_hand [OF True, of h']
        by (simp add: ac_simps)
      then show ?thesis by simp
    qed
  next
    case (OpDiscard k i)
    show ?thesis
    proof (cases "k < length hs")
      case False
      then show ?thesis using t OpDiscard by simp
    next
      case True
      obtain r h' d' where hd: "Hand_discard (hs ! k) d i = (r, h', d')"
        by (cases "Hand_discard (hs ! k) d i") auto
      have "all_cards (step t x) + mset (hand (hs ! k)) = all_cards t + mset (hand (hs ! k))"
        using True t OpDiscard hd Hand_discard_cards [OF hd]
          sum_list_update_hand [OF True, of h']
        by (simp add: ac_simps)
      then show ?thesis by simp
    qed
  next
    case (OpShuffle rs)
    then show ?thesis
      using t by (simp add: Deck_shuffle_def Let_def mset_random_shuffle)
  qed
qed

lemma run_cards: "all_cards (run t ops) = all_cards t"
  unfolding run_def by (induction ops arbitrary: t) (simp_all add: step_cards)

text \<open>
  From a draw pile of 52 cards, however it came about, five draws and a discard of
  index 2 leave 47 cards in the draw pile, 4 in the hand and 1 in the discard pile.
\<close>

lemma draw5_discard2_counts:
  assumes "length cs = 52"
  shows "(case run (\<lparr>deck = cs, discard = []\<rparr>, [Hand_init])
                [OpDraw 0, OpDraw 0, OpDraw 0, OpDraw 0, OpDraw 0, OpDiscard 0 2] of
            (d', hs) \<Rightarrow> (length (deck d'), length (hand (hs ! 0)), length (discard d')))
         = (47, 4, 1)"
proof -
  from assms obtain c1 c2 c3 c4 c5 rest
    where cs: "cs = c1 # c2 # c3 # c4 # c5 # rest" and r: "length rest = 47"
    by (cases cs; simp; rename_tac a as; case_tac as; simp; rename_tac b bs; case_tac bs; simp;
        rename_tac c ds; case_tac ds; simp; rename_tac e es; case_tac es; simp)
  show ?thesis
    unfolding cs run_def
    by (simp add: r Hand_init_def Hand_draw_def Deck_draw_def list_pop_0_Cons
        Hand_discard_def list_pop_def PY_SSIZE_T_MIN_def PY_SSIZE_T_MAX_def
        Deck_addToDiscard_def)
qed

text \<open>
  C9.  The specification's scenario starts from \<^verbatim>\<open>Deck(1, False)\<close> and counts 52 cards
  over draw pile, hand and discard pile.  The scenario raises \<^verbatim>\<open>CardValueError\<close> in the
  deck's constructor: there is no deck to draw from and no count of 52.  The draw,
  discard and shuffle methods themselves keep every card exactly once (lemma
  \<open>run_cards\<close>), and from a pile of 52 cards they give the counts 47, 4 and 1 (lemma
  \<open>draw5_discard2_counts\<close>).
\<close>

theorem scenario_draw5_discard2_rejected:
  "scenario_draw5_discard2 = Inl CardValueError"
  by (simp add: scenario_draw5_discard2_def Deck_init_positive)

end
